theory Spec2Isabelle
  imports Main "HOL-Library.Word" "HOL-Library.AList" "HOL-Library.Char_ord"
    "HOL-Library.List_Lexorder"
begin

section \<open>Key stores (src/lib/key\_store.js)\<close>

text \<open>
  Network and account identifiers are JavaScript strings. A key pair is an object that the
  store only compares by identity, so it is a type parameter \<open>'k\<close>. JavaScript's
  \<open>Map\<close> and \<open>Set\<close> enumerate in insertion order: the \<open>Map\<close> of pools
  is an association list (updated in place, extended at the end) and a \<open>Set\<close> of key pairs
  is a list that \<open>Set_add\<close> extends at the end only with a member it does not hold yet.
  The rotation counter is a JavaScript number that only ever counts up from 0 in steps of 1;
  it is a natural number here (the arithmetic of numbers is exact on integers below
  \<open>2^53\<close>).
\<close>

type_synonym networkID = string
type_synonym accountID = string

record 'k InMemoryMultiKeyStore =
  networkID :: networkID
  reKeyCounter :: nat
  store :: "(accountID \<times> 'k list) list"

text \<open>\<open>keyPairs.add(keyPair)\<close> on a \<open>Set\<close>.\<close>

definition Set_add :: "'a \<Rightarrow> 'a list \<Rightarrow> 'a list" where
  "Set_add x xs = (if x \<in> set xs then xs else xs @ [x])"

text \<open>\<open>this.store.get(accountID) || new Set()\<close>: a stored \<open>Set\<close> is an object, hence truthy.\<close>

definition get_or_new_Set :: "(accountID \<times> 'k list) list \<Rightarrow> accountID \<Rightarrow> 'k list" where
  "get_or_new_Set m a = (case map_of m a of None \<Rightarrow> [] | Some keyPairs \<Rightarrow> keyPairs)"

text \<open>The constructor.\<close>

definition new_InMemoryMultiKeyStore :: "networkID \<Rightarrow> 'k InMemoryMultiKeyStore" where
  "new_InMemoryMultiKeyStore n = \<lparr>networkID = n, reKeyCounter = 0, store = []\<rparr>"

definition reKey :: "'k InMemoryMultiKeyStore \<Rightarrow> 'k InMemoryMultiKeyStore" where
  "reKey s = s\<lparr>reKeyCounter := reKeyCounter s + 1\<rparr>"

definition setKey ::
  "'k InMemoryMultiKeyStore \<Rightarrow> networkID \<Rightarrow> accountID \<Rightarrow> 'k \<Rightarrow> 'k InMemoryMultiKeyStore" where
  "setKey s n a keyPair =
     (if n \<noteq> networkID s then s
      else let keyPairs = Set_add keyPair (get_or_new_Set (store s) a)
           in s\<lparr>store := AList.update a keyPairs (store s)\<rparr>)"

text \<open>\<open>getKey\<close> reads only; \<open>None\<close> is JavaScript's \<open>undefined\<close>.\<close>

definition getKey :: "'k InMemoryMultiKeyStore \<Rightarrow> networkID \<Rightarrow> accountID \<Rightarrow> 'k option" where
  "getKey s n a =
     (if n \<noteq> networkID s then None
      else let keyPairs = get_or_new_Set (store s) a
           in if length keyPairs = 0 then None
              else let keyIndex = reKeyCounter s mod length keyPairs
                   in Some (keyPairs ! keyIndex))"

definition removeKey ::
  "'k InMemoryMultiKeyStore \<Rightarrow> networkID \<Rightarrow> accountID \<Rightarrow> 'k InMemoryMultiKeyStore" where
  "removeKey s n a =
     (if n \<noteq> networkID s then s else s\<lparr>store := AList.delete a (store s)\<rparr>)"

text \<open>\<open>clear()\<close> has no parameter.\<close>

definition clear :: "'k InMemoryMultiKeyStore \<Rightarrow> 'k InMemoryMultiKeyStore" where
  "clear s = s\<lparr>store := []\<rparr>"

definition getNetworks :: "'k InMemoryMultiKeyStore \<Rightarrow> networkID list" where
  "getNetworks s = [networkID s]"

definition getAccounts :: "'k InMemoryMultiKeyStore \<Rightarrow> networkID \<Rightarrow> accountID list" where
  "getAccounts s n = (if n \<noteq> networkID s then [] else map fst (store s))"

text \<open>
  The pools are \<open>Set\<close>s: no pool lists a key pair twice, and the \<open>Map\<close> lists no
  account twice. Every operation of the class keeps this.
\<close>

definition pools_are_sets :: "'k InMemoryMultiKeyStore \<Rightarrow> bool" where
  "pools_are_sets s = (distinct (map fst (store s)) \<and> list_all (\<lambda>p. distinct (snd p)) (store s))"

text \<open>
  The driver of the rotation property: \<open>n\<close> times \<open>reKey()\<close> and then
  \<open>getKey(network, account)\<close>, collecting what \<open>getKey\<close> returned.
\<close>

fun reKey_then_getKey ::
  "nat \<Rightarrow> 'k InMemoryMultiKeyStore \<Rightarrow> networkID \<Rightarrow> accountID \<Rightarrow> 'k option list" where
  "reKey_then_getKey 0 s n a = []"
| "reKey_then_getKey (Suc i) s n a = (let s' = reKey s in getKey s' n a # reKey_then_getKey i s' n a)"

subsection \<open>The merged key store\<close>

text \<open>
  \<open>KeyStore\<close> extends the \<open>MergeKeyStore\<close> of near-api-js over the list
  \<open>[keyStore, ...keyStores]\<close>. A constituent is the in-memory store above or a store of
  near-api-js, which is taken as what its \<open>getAccounts(networkId)\<close> answers.
\<close>

datatype 'k source =
    MultiKeyStore "'k InMemoryMultiKeyStore"
  | LibraryKeyStore "networkID \<Rightarrow> accountID list"

fun source_getAccounts :: "'k source \<Rightarrow> networkID \<Rightarrow> accountID list" where
  "source_getAccounts (MultiKeyStore s) n = getAccounts s n"
| "source_getAccounts (LibraryKeyStore f) n = f n"

record 'k KeyStore =
  ks_networkID :: networkID
  ks_keyStore :: "'k InMemoryMultiKeyStore"
  ks_keyStores :: "'k source list"

text \<open>\<open>super([keyStore, ...keyStores])\<close>: the list the merge iterates.\<close>

definition merged_keyStores :: "'k KeyStore \<Rightarrow> 'k source list" where
  "merged_keyStores K = MultiKeyStore (ks_keyStore K) # ks_keyStores K"

text \<open>\<open>[...new Set(xs)]\<close>: the members in the order of their first occurrence.\<close>

definition Set_of_array :: "'a list \<Rightarrow> 'a list" where
  "Set_of_array xs = foldl (\<lambda>acc x. Set_add x acc) [] xs"

text \<open>
  \<open>MergeKeyStore.getAccounts(networkId)\<close> of near-api-js adds the accounts of every
  constituent, in order, to one \<open>Set\<close> and returns its members.
\<close>

definition MergeKeyStore_getAccounts :: "'k source list \<Rightarrow> networkID \<Rightarrow> accountID list" where
  "MergeKeyStore_getAccounts srcs n = Set_of_array (concat (map (\<lambda>src. source_getAccounts src n) srcs))"

text \<open>
  \<open>Array.prototype.sort()\<close> without a comparator orders strings by their code units,
  which is the lexicographic order of \<open>string\<close>.
\<close>

definition KeyStore_getAccounts :: "'k KeyStore \<Rightarrow> accountID list" where
  "KeyStore_getAccounts K =
     (let accounts = MergeKeyStore_getAccounts (merged_keyStores K) (ks_networkID K)
      in sort (Set_of_array accounts))"

definition KeyStore_reKey :: "'k KeyStore \<Rightarrow> 'k KeyStore" where
  "KeyStore_reKey K = K\<lparr>ks_keyStore := reKey (ks_keyStore K)\<rparr>"

section \<open>The engine (src/lib/engine.ts)\<close>

subsection \<open>Values that cross the boundary\<close>

type_synonym bytes = "8 word list"

text \<open>\<open>Result\<close> of the prelude: \<open>Ok(value)\<close> or \<open>Err(error)\<close>.\<close>

datatype ('a, 'e) Result = Ok 'a | Err 'e

text \<open>An optional property of an object, which the code tests against \<open>undefined\<close> and \<open>null\<close>.\<close>

datatype 'a js_optional = JSUndefined | JSNull | JSValue 'a

text \<open>An argument typed \<open>Uint8Array | string\<close> that may be omitted.\<close>

datatype jsarg = ArgUndefined | ArgString string | ArgBytes bytes

text \<open>
  A thrown value, as far as the \<open>catch\<close> blocks read it: \<open>error?.type\<close>,
  \<open>error?.kind?.ExecutionError\<close>, \<open>error?.transaction_outcome?.id\<close>,
  \<open>error.message\<close> and \<open>error.toString()\<close>. \<open>None\<close> is \<open>undefined\<close>.
\<close>

record js_error =
  err_type :: "string option"
  err_kind_ExecutionError :: "string option"
  err_transaction_outcome_id :: "string option"
  err_message :: string
  err_toString :: string

definition new_Error :: "string \<Rightarrow> string \<Rightarrow> js_error" where
  "new_Error name msg =
     \<lparr>err_type = None, err_kind_ExecutionError = None, err_transaction_outcome_id = None,
      err_message = msg, err_toString = name @ '': '' @ msg\<rparr>"

text \<open>
  \<open>BlockID = BlockTag | BlockHeight | BlockHash\<close>: a height is a number or a bigint, a tag
  or a hash is a string.
\<close>

datatype BlockID = BlockNumber nat | BlockBigInt nat | BlockString string

record ViewOptions =
  block :: "BlockID js_optional"

text \<open>The object handed to \<open>provider.query\<close>; an \<open>undefined\<close> property is \<open>None\<close>.\<close>

record query_request =
  request_type :: string
  account_id :: string
  method_name :: string
  args_base64 :: string
  finality :: "string option"
  block_id :: "BlockID option"

record query_response =
  result_bytes :: bytes
  logs :: "string list"

text \<open>
  \<open>FinalExecutionOutcome\<close> of near-api-js, as far as \<open>callMutativeFunction\<close>
  reads it. Its \<open>status\<close> is one of the strings of \<open>FinalExecutionStatusBasic\<close> or an
  object whose \<open>SuccessValue\<close> may be a string.
\<close>

datatype FinalExecutionStatus =
    StatusBasic string
  | StatusObject (SuccessValue: "string option")

record FinalExecutionOutcome =
  status :: FinalExecutionStatus
  transaction_hash :: string
  transaction_outcome_id :: "string option"
  outcome_toString :: string

text \<open>What \<open>provider.txStatus\<close> answers, as far as the gas accounting reads it.\<close>

record ExecutionOutcomeWithId =
  gas_burnt :: nat

record TxStatusResponse =
  receipts_outcome :: "ExecutionOutcomeWithId list"
  transaction_outcome :: ExecutionOutcomeWithId

record 'tid TransactionOutcome =
  outcome_id :: 'tid
  output_bytes :: bytes
  gasBurned :: nat
  tx :: "string option"

record TransactionErrorDetails =
  details_tx :: "string option"
  details_gasBurned :: nat

record rawTransaction =
  gasLimit :: nat

record 'sr WrappedSubmitResult =
  submitResult :: 'sr
  wrapped_gasBurned :: nat
  wrapped_tx :: "string option"

record state_record =
  key :: bytes
  val :: bytes

text \<open>Every request that leaves for the backend is appended to a log.\<close>

datatype backend_call =
    FunctionCall string string bytes nat
  | TxStatus bytes string
  | Query query_request
  | ViewState string string

subsection \<open>The collaborators\<close>

text \<open>
  The backend client and the codecs are not part of the engine; they are parameters. One that
  can throw returns \<open>Inl\<close> of the thrown value. \<open>base58ToBytes\<close> receives the
  transaction reference as the caller has it, \<open>None\<close> when it is \<open>undefined\<close>.
\<close>

record ('addr, 'tid, 'sr) env =
  parseHexString :: "string \<Rightarrow> js_error + bytes"
  parseRawTransaction :: "bytes \<Rightarrow> js_error + rawTransaction"
  functionCall :: "string \<Rightarrow> string \<Rightarrow> bytes \<Rightarrow> nat \<Rightarrow> js_error + FinalExecutionOutcome"
  txStatus :: "bytes \<Rightarrow> string \<Rightarrow> js_error + TxStatusResponse"
  query :: "query_request \<Rightarrow> js_error + query_response"
  viewState :: "string \<Rightarrow> string \<Rightarrow> js_error + state_record list"
  base58ToBytes :: "string option \<Rightarrow> js_error + bytes"
  base64_encode :: "bytes \<Rightarrow> string"
  base64_decode :: "string \<Rightarrow> bytes"
  JSON_stringify :: "TransactionErrorDetails \<Rightarrow> string"
  TransactionID_fromHex :: "string \<Rightarrow> 'tid"
  SubmitResult_decode :: "bytes \<Rightarrow> js_error + 'sr"
  Address_parse :: "string \<Rightarrow> (string + 'addr)"

record 'k Engine =
  keyStore :: "'k KeyStore"
  contractID :: string
  backend_calls :: "backend_call list"

definition log_call :: "backend_call \<Rightarrow> 'k Engine \<Rightarrow> 'k Engine" where
  "log_call c eng = eng\<lparr>backend_calls := backend_calls eng @ [c]\<rparr>"

subsection \<open>Helpers of the engine\<close>

definition prepareInput :: "('addr, 'tid, 'sr) env \<Rightarrow> jsarg \<Rightarrow> js_error + bytes" where
  "prepareInput env args =
     (case args of
        ArgUndefined \<Rightarrow> Inr []
      | ArgString s \<Rightarrow> parseHexString env s
      | ArgBytes b \<Rightarrow> Inr b)"

definition errorWithDetails ::
  "('addr, 'tid, 'sr) env \<Rightarrow> string \<Rightarrow> TransactionErrorDetails \<Rightarrow> string" where
  "errorWithDetails env message details = message @ ''|'' @ JSON_stringify env details"

text \<open>
  \<open>s.replace(pattern, replacement)\<close> with a string pattern replaces the first occurrence of
  the pattern in \<open>s\<close>, wherever it is.
\<close>

fun String_replace :: "string \<Rightarrow> string \<Rightarrow> string \<Rightarrow> string" where
  "String_replace pat rep [] = (if pat = [] then rep else [])"
| "String_replace pat rep (c # cs) =
     (if take (length pat) (c # cs) = pat then rep @ drop (length pat) (c # cs)
      else c # String_replace pat rep cs)"

text \<open>\<open>x || 0\<close> on a number.\<close>

definition or_zero :: "nat \<Rightarrow> nat" where
  "or_zero x = (if x = 0 then 0 else x)"

text \<open>
  The \<open>try\<close> block holds the decoding of the reference and the status query; whatever is
  thrown there ends in \<open>return 0\<close>.
\<close>

definition transactionGasBurned ::
  "('addr, 'tid, 'sr) env \<Rightarrow> 'k Engine \<Rightarrow> string option \<Rightarrow> nat \<times> 'k Engine" where
  "transactionGasBurned env eng ident =
     (case base58ToBytes env ident of
        Inl error \<Rightarrow> (0, eng)
      | Inr hash \<Rightarrow>
          let eng' = log_call (TxStatus hash (contractID eng)) eng
          in case txStatus env hash (contractID eng) of
               Inl error \<Rightarrow> (0, eng')
             | Inr transactionStatus \<Rightarrow>
                 let receiptsGasBurned =
                       foldl (\<lambda>sum value. sum + gas_burnt value) 0 (receipts_outcome transactionStatus);
                     transactionGasBurned = or_zero (gas_burnt (transaction_outcome transactionStatus))
                 in (receiptsGasBurned + transactionGasBurned, eng'))"

subsection \<open>Mutating calls\<close>

text \<open>The \<open>catch\<close> block of \<open>callMutativeFunction\<close>.\<close>

definition callMutativeFunction_catch ::
  "('addr, 'tid, 'sr) env \<Rightarrow> 'k Engine \<Rightarrow> js_error \<Rightarrow>
     ('tid TransactionOutcome, string) Result \<times> 'k Engine" where
  "callMutativeFunction_catch env eng error =
     (if err_type error = Some ''FunctionCallError'' then
        let transactionId = err_transaction_outcome_id error;
            (g, eng') = transactionGasBurned env eng transactionId;
            details = \<lparr>details_tx = transactionId, details_gasBurned = g\<rparr>
        in case err_kind_ExecutionError error of
             Some errorKind \<Rightarrow>
               if errorKind \<noteq> [] then
                 let errorCode = String_replace ''Smart contract panicked: '' [] errorKind
                 in (Err (errorWithDetails env errorCode details), eng')
               else (Err (errorWithDetails env (err_message error) details), eng')
           | None \<Rightarrow> (Err (errorWithDetails env (err_message error) details), eng')
      else if err_type error = Some ''MethodNotFound'' then (Err (err_message error), eng)
      else (Err (err_toString error), eng))"

definition gas :: nat where
  "gas = 300000000000000"

definition callMutativeFunction ::
  "('addr, 'tid, 'sr) env \<Rightarrow> 'k Engine \<Rightarrow> string \<Rightarrow> jsarg \<Rightarrow>
     ('tid TransactionOutcome, string) Result \<times> 'k Engine" where
  "callMutativeFunction env eng methodName args =
     (let eng1 = eng\<lparr>keyStore := KeyStore_reKey (keyStore eng)\<rparr>
      in case prepareInput env args of
           Inl error \<Rightarrow> callMutativeFunction_catch env eng1 error
         | Inr input \<Rightarrow>
             let eng2 = log_call (FunctionCall (contractID eng1) methodName input gas) eng1
             in case functionCall env (contractID eng1) methodName input gas of
                  Inl error \<Rightarrow> callMutativeFunction_catch env eng2 error
                | Inr result \<Rightarrow>
                    (case status result of
                       StatusObject (Some successValue) \<Rightarrow>
                         let transactionId = transaction_outcome_id result;
                             (g, eng3) = transactionGasBurned env eng2 transactionId
                         in (Ok \<lparr>outcome_id = TransactionID_fromHex env (transaction_hash result),
                                 output_bytes = base64_decode env successValue,
                                 gasBurned = g,
                                 tx = transactionId\<rparr>, eng3)
                     | _ \<Rightarrow> (Err (outcome_toString result), eng2)))"

definition submit ::
  "('addr, 'tid, 'sr) env \<Rightarrow> 'k Engine \<Rightarrow> jsarg \<Rightarrow>
     ('sr WrappedSubmitResult, string) Result \<times> 'k Engine" where
  "submit env eng input =
     (case prepareInput env input of
        Inl error \<Rightarrow> (Err (err_message error), eng)
      | Inr inputBytes \<Rightarrow>
          (case parseRawTransaction env inputBytes of
             Inl error \<Rightarrow> (Err ''ERR_INVALID_TX'', eng)
           | Inr rawTransaction \<Rightarrow>
               if gasLimit rawTransaction < 21000 then (Err ''ERR_INTRINSIC_GAS'', eng)
               else
                 let (r, eng') = callMutativeFunction env eng ''submit'' (ArgBytes inputBytes)
                 in case r of
                      Err e \<Rightarrow> (Err e, eng')
                    | Ok outcome \<Rightarrow>
                        (case SubmitResult_decode env (output_bytes outcome) of
                           Inl error \<Rightarrow> (Err (err_message error), eng')
                         | Inr decoded \<Rightarrow>
                             (Ok \<lparr>submitResult = decoded,
                                  wrapped_gasBurned = gasBurned outcome,
                                  wrapped_tx = tx outcome\<rparr>, eng'))))"

subsection \<open>View calls\<close>

text \<open>\<open>options?.block\<close>, where \<open>options\<close> itself may be \<open>undefined\<close>.\<close>

definition options_block :: "ViewOptions option \<Rightarrow> BlockID js_optional" where
  "options_block options = (case options of None \<Rightarrow> JSUndefined | Some opts \<Rightarrow> block opts)"

text \<open>
  \<open>callFunction\<close> has no \<open>try\<close>: what \<open>prepareInput\<close> or the query throws leaves the
  function (\<open>Inl\<close>). The debug print of the logs is not modelled.
\<close>

definition callFunction ::
  "('addr, 'tid, 'sr) env \<Rightarrow> 'k Engine \<Rightarrow> string \<Rightarrow> jsarg \<Rightarrow> ViewOptions option \<Rightarrow>
     (js_error + (bytes, string) Result) \<times> 'k Engine" where
  "callFunction env eng methodName args options =
     (case prepareInput env args of
        Inl error \<Rightarrow> (Inl error, eng)
      | Inr input \<Rightarrow>
          let request =
                \<lparr>request_type = ''call_function'',
                 account_id = contractID eng,
                 method_name = methodName,
                 args_base64 = base64_encode env input,
                 finality =
                   (if options_block options = JSUndefined \<or> options_block options = JSNull
                    then Some ''final'' else None),
                 block_id =
                   (if options_block options \<noteq> JSUndefined \<and> options_block options \<noteq> JSNull
                    then (case options_block options of JSValue b \<Rightarrow> Some b | _ \<Rightarrow> None)
                    else None)\<rparr>;
              eng' = log_call (Query request) eng
          in case query env request of
               Inl error \<Rightarrow> (Inl error, eng')
             | Inr result \<Rightarrow> (Inr (Ok (result_bytes result)), eng'))"

text \<open>The truthiness of \<open>options.block\<close>: \<open>0\<close>, \<open>0n\<close> and \<open>''\<close> are falsy.\<close>

fun truthy_block :: "BlockID js_optional \<Rightarrow> bool" where
  "truthy_block JSUndefined = False"
| "truthy_block JSNull = False"
| "truthy_block (JSValue (BlockNumber n)) = (n \<noteq> 0)"
| "truthy_block (JSValue (BlockBigInt n)) = (n \<noteq> 0)"
| "truthy_block (JSValue (BlockString s)) = (s \<noteq> [])"

text \<open>
  \<open>(options.block as number) + 1\<close>: the cast is erased, so a string is concatenated with
  \<open>1\<close> and a bigint raises a \<open>TypeError\<close>.
\<close>

fun block_plus_1 :: "BlockID \<Rightarrow> js_error + BlockID" where
  "block_plus_1 (BlockNumber n) = Inr (BlockNumber (n + 1))"
| "block_plus_1 (BlockBigInt n) =
     Inl (new_Error ''TypeError'' ''Cannot mix BigInt and other types, use explicit conversions'')"
| "block_plus_1 (BlockString s) = Inr (BlockString (s @ ''1''))"

text \<open>
  \<open>getCode\<close> writes to the caller's \<open>options\<close> object; the model returns the object as
  the call leaves it, next to the result and the engine. The address is given as the bytes of
  \<open>address.toBytes()\<close>.
\<close>

definition getCode ::
  "('addr, 'tid, 'sr) env \<Rightarrow> 'k Engine \<Rightarrow> bytes \<Rightarrow> ViewOptions option \<Rightarrow>
     (js_error + (bytes, string) Result) \<times> ViewOptions option \<times> 'k Engine" where
  "getCode env eng address_bytes options =
     (let args = address_bytes
      in case options of
           None \<Rightarrow>
             (let (r, eng') = callFunction env eng ''get_code'' (ArgBytes args) options
              in (r, options, eng'))
         | Some opts \<Rightarrow>
             if truthy_block (block opts) then
               (case block opts of
                  JSValue b \<Rightarrow>
                    (case block_plus_1 b of
                       Inl error \<Rightarrow> (Inl error, options, eng)
                     | Inr b' \<Rightarrow>
                         let options' = Some (opts\<lparr>block := JSValue b'\<rparr>);
                             (r, eng') = callFunction env eng ''get_code'' (ArgBytes args) options'
                         in (r, options', eng'))
                | _ \<Rightarrow>
                    (let (r, eng') = callFunction env eng ''get_code'' (ArgBytes args) options
                     in (r, options, eng')))
             else
               (let (r, eng') = callFunction env eng ''get_code'' (ArgBytes args) options
                in (r, options, eng')))"

subsection \<open>The state scan\<close>

record 'addr AddressState =
  address :: 'addr
  nonce :: nat
  balance :: nat
  code :: "bytes option"
  storage :: "(nat \<times> nat) list"

text \<open>The constructor with its defaults.\<close>

definition new_AddressState :: "'addr \<Rightarrow> 'addr AddressState" where
  "new_AddressState a = \<lparr>address = a, nonce = 0, balance = 0, code = None, storage = []\<rparr>"

type_synonym 'addr EngineStorage = "(string \<times> 'addr AddressState) list"

text \<open>The enumeration \<open>EngineStorageKeyPrefix\<close>.\<close>

definition Config :: nat where "Config = 0"
definition Nonce :: nat where "Nonce = 1"
definition Balance :: nat where "Balance = 2"
definition Code :: nat where "Code = 3"
definition Storage :: nat where "Storage = 4"

text \<open>\<open>toBigIntBE\<close> of bigint-buffer: the bytes as a big-endian unsigned integer.\<close>

definition toBigIntBE :: "bytes \<Rightarrow> nat" where
  "toBigIntBE bs = foldl (\<lambda>acc b. acc * 256 + unat b) 0 bs"

text \<open>\<open>Buffer.from(key).toString('hex')\<close>: two lowercase digits a byte.\<close>

definition hex_digit :: "nat \<Rightarrow> char" where
  "hex_digit d = ''0123456789abcdef'' ! (d mod 16)"

definition toString_hex :: "bytes \<Rightarrow> string" where
  "toString_hex bs = concat (map (\<lambda>b. [hex_digit (unat b div 16), hex_digit (unat b mod 16)]) bs)"

text \<open>\<open>a.subarray(b, e)\<close> and \<open>a.subarray(b)\<close> for indices that are not negative.\<close>

definition subarray :: "bytes \<Rightarrow> nat \<Rightarrow> nat \<Rightarrow> bytes" where
  "subarray a b e = take (e - b) (drop b a)"

definition subarray_from :: "bytes \<Rightarrow> nat \<Rightarrow> bytes" where
  "subarray_from a b = drop b a"

text \<open>What \<open>unwrap()\<close> throws on an \<open>Err\<close>, and what a property write on \<open>undefined\<close> throws.\<close>

definition unwrap_error :: "string \<Rightarrow> js_error" where
  "unwrap_error e = new_Error ''Error'' e"

definition undefined_error :: js_error where
  "undefined_error = new_Error ''TypeError'' ''Cannot set properties of undefined''"

text \<open>
  One turn of the loop over the records. \<open>record.key[0]\<close> of an empty key is
  \<open>undefined\<close>, which equals no prefix. The state object is changed in place, which keeps
  its position in the \<open>Map\<close>.
\<close>

definition getStorage_record ::
  "('addr, 'tid, 'sr) env \<Rightarrow> 'addr EngineStorage \<Rightarrow> state_record \<Rightarrow> js_error + 'addr EngineStorage" where
  "getStorage_record env result r =
     (let record_type = (case key r of [] \<Rightarrow> None | b # _ \<Rightarrow> Some (unat b))
      in if record_type = Some Config then Inr result
         else
           let k = (if record_type = Some Storage then subarray (key r) 1 21
                    else subarray_from (key r) 1);
               addr = toString_hex k
           in case (if map_of result addr = None
                    then (case Address_parse env addr of
                            Inl e \<Rightarrow> Inl (unwrap_error e)
                          | Inr a \<Rightarrow> Inr (AList.update addr (new_AddressState a) result))
                    else Inr result) of
                Inl error \<Rightarrow> Inl error
              | Inr result1 \<Rightarrow>
                  (case map_of result1 addr of
                     None \<Rightarrow> Inl undefined_error
                   | Some state \<Rightarrow>
                       Inr (AList.update addr
                             (if record_type = Some Nonce then state\<lparr>nonce := toBigIntBE (val r)\<rparr>
                              else if record_type = Some Balance then state\<lparr>balance := toBigIntBE (val r)\<rparr>
                              else if record_type = Some Code then state\<lparr>code := Some (val r)\<rparr>
                              else if record_type = Some Storage then
                                state\<lparr>storage := AList.update (toBigIntBE (subarray_from (key r) 21))
                                                     (toBigIntBE (val r)) (storage state)\<rparr>
                              else state)
                             result1)))"

fun getStorage_loop ::
  "('addr, 'tid, 'sr) env \<Rightarrow> 'addr EngineStorage \<Rightarrow> state_record list \<Rightarrow> js_error + 'addr EngineStorage" where
  "getStorage_loop env result [] = Inr result"
| "getStorage_loop env result (r # rs) =
     (case getStorage_record env result r of
        Inl error \<Rightarrow> Inl error
      | Inr result' \<Rightarrow> getStorage_loop env result' rs)"

definition getStorage ::
  "('addr, 'tid, 'sr) env \<Rightarrow> 'k Engine \<Rightarrow>
     (js_error + ('addr EngineStorage, string) Result) \<times> 'k Engine" where
  "getStorage env eng =
     (let eng' = log_call (ViewState [] ''final'') eng
      in case viewState env [] ''final'' of
           Inl error \<Rightarrow> (Inl error, eng')
         | Inr records \<Rightarrow>
             (case getStorage_loop env [] records of
                Inl error \<Rightarrow> (Inl error, eng')
              | Inr result \<Rightarrow> (Inr (Ok result), eng')))"

text \<open>
  The Address State that a record for the address bytes \<open>a\<close> is applied to: the entry the
  map holds under the hexadecimal form of \<open>a\<close>, or else a fresh one for the parsed address.
\<close>

definition scan_entry ::
  "('addr, 'tid, 'sr) env \<Rightarrow> 'addr EngineStorage \<Rightarrow> bytes \<Rightarrow> 'addr AddressState option" where
  "scan_entry env result a =
     (case map_of result (toString_hex a) of
        Some state \<Rightarrow> Some state
      | None \<Rightarrow> (case Address_parse env (toString_hex a) of
                   Inl e \<Rightarrow> None
                 | Inr x \<Rightarrow> Some \<lparr>address = x, nonce = 0, balance = 0, code = None, storage = []\<rparr>))"

section \<open>The specification's wording\<close>

text \<open>
  The specification speaks of stripping a known prefix from the panic message: the message
  without the prefix when it starts with it, the message itself otherwise.
\<close>

definition spec_strip_prefix :: "string \<Rightarrow> string \<Rightarrow> string" where
  "spec_strip_prefix p s = (if take (length p) s = p then drop (length p) s else s)"

section \<open>Test doubles\<close>

text \<open>
  Concrete stores, a concrete engine and stand-ins for the collaborators, on which the
  functions above are run. The codecs of \<open>stub_env\<close> are placeholders; its raw
  transaction parser rejects payloads shorter than two bytes and reads the gas limit from
  the payload.
\<close>

definition example_store :: "nat InMemoryMultiKeyStore" where
  "example_store =
     reKey (setKey (setKey (setKey (new_InMemoryMultiKeyStore ''testnet'')
              ''testnet'' ''alice.near'' 7) ''testnet'' ''alice.near'' 8) ''testnet'' ''alice.near'' 9)"

definition stub_env :: "(string, string, bytes) env" where
  "stub_env =
     \<lparr>parseHexString = (\<lambda>s. Inl (new_Error ''Error'' ''invalid arrayify value'')),
      parseRawTransaction =
        (\<lambda>b. if length b < 2 then Inl (new_Error ''Error'' ''invalid raw transaction'')
             else Inr \<lparr>gasLimit = toBigIntBE b\<rparr>),
      functionCall =
        (\<lambda>c m a g. Inr \<lparr>status = StatusObject (Some ''AA==''), transaction_hash = ''h1'',
                         transaction_outcome_id = Some ''t1'', outcome_toString = ''[object Object]''\<rparr>),
      txStatus =
        (\<lambda>h c. Inr \<lparr>receipts_outcome = [\<lparr>gas_burnt = 10\<rparr>, \<lparr>gas_burnt = 20\<rparr>],
                     transaction_outcome = \<lparr>gas_burnt = 5\<rparr>\<rparr>),
      query = (\<lambda>q. Inr \<lparr>result_bytes = [], logs = []\<rparr>),
      viewState = (\<lambda>p f. Inr []),
      base58ToBytes =
        (\<lambda>i. case i of None \<Rightarrow> Inl (new_Error ''TypeError'' ''Expected String'')
                      | Some s \<Rightarrow> Inr (map (\<lambda>c. of_nat (of_char c)) s)),
      base64_encode = toString_hex,
      base64_decode = (\<lambda>s. []),
      JSON_stringify = (\<lambda>d. ''{}''),
      TransactionID_fromHex = (\<lambda>s. s),
      SubmitResult_decode = (\<lambda>b. Inr b),
      Address_parse = (\<lambda>s. if length s = 40 then Inr s else Inl ''ERR_INVALID_ADDRESS'')\<rparr>"

definition stub_engine :: "nat Engine" where
  "stub_engine =
     \<lparr>keyStore = \<lparr>ks_networkID = ''testnet'',
                  ks_keyStore = new_InMemoryMultiKeyStore ''testnet'',
                  ks_keyStores = []\<rparr>,
      contractID = ''aurora'',
      backend_calls = []\<rparr>"

definition example_KeyStore :: "nat KeyStore" where
  "example_KeyStore =
     \<lparr>ks_networkID = ''testnet'',
      ks_keyStore = setKey (setKey (new_InMemoryMultiKeyStore ''testnet'') ''testnet'' ''bob.near'' 1)
                      ''testnet'' ''alice.near'' 2,
      ks_keyStores = [LibraryKeyStore (\<lambda>n. if n = ''testnet'' then [''carol.near'', ''alice.near''] else [])]\<rparr>"

text \<open>A backend whose function call throws an execution failure with a panic message.\<close>

definition panic_error :: js_error where
  "panic_error =
     \<lparr>err_type = Some ''FunctionCallError'',
      err_kind_ExecutionError = Some ''wasm trap. Smart contract panicked: ERR_X'',
      err_transaction_outcome_id = Some ''t1'',
      err_message = ''m'',
      err_toString = ''ServerTransactionError: m''\<rparr>"

definition panic_env :: "(string, string, bytes) env" where
  "panic_env = stub_env\<lparr>functionCall := \<lambda>c m a g. Inl panic_error\<rparr>"

text \<open>The records of the example of the specification: an address and a storage slot.\<close>

definition addrA :: bytes where
  "addrA = [1, 2, 3, 4, 5, 6, 7, 8, 9, 10, 11, 12, 13, 14, 15, 16, 17, 18, 19, 0xAB]"

definition slot1 :: bytes where
  "slot1 = [0, 0, 0, 0, 0, 0, 0, 0, 0, 0, 0, 0, 0, 0, 0, 0,
            0, 0, 0, 0, 0, 0, 0, 0, 0, 0, 0, 0, 0, 0, 0, 1]"

section \<open>Properties of the key stores\<close>

lemma set_Set_add: "set (Set_add x xs) = insert x (set xs)"
  by (auto simp: Set_add_def)

lemma distinct_Set_add: "distinct xs \<Longrightarrow> distinct (Set_add x xs)"
  by (simp add: Set_add_def)

lemma Set_of_array_foldl:
  "set (foldl (\<lambda>acc x. Set_add x acc) acc xs) = set acc \<union> set xs \<and>
   (distinct acc \<longrightarrow> distinct (foldl (\<lambda>acc x. Set_add x acc) acc xs))"
  by (induction xs arbitrary: acc) (auto simp: set_Set_add distinct_Set_add)

lemma set_Set_of_array: "set (Set_of_array xs) = set xs"
  by (simp add: Set_of_array_def Set_of_array_foldl)

lemma distinct_Set_of_array: "distinct (Set_of_array xs)"
  using Set_of_array_foldl [of "[]" xs] by (simp add: Set_of_array_def)

lemma nth_mod_rotate:
  "map (\<lambda>j. xs ! ((m + j) mod length xs)) [0..<length xs] = rotate m xs"
  by (rule nth_equalityI) (simp_all add: nth_rotate)

lemma reKey_then_getKey_nth:
  "get_or_new_Set (store s) a \<noteq> [] \<Longrightarrow>
   reKey_then_getKey i s (networkID s) a =
     map (\<lambda>j. Some (get_or_new_Set (store s) a ! ((reKeyCounter s + 1 + j) mod length (get_or_new_Set (store s) a)))) [0..<i]"
proof (induction i arbitrary: s)
  case 0
  then show ?case by simp
next
  case (Suc i)
  let ?s = "reKey s"
  have st: "store ?s = store s" "networkID ?s = networkID s" "reKeyCounter ?s = reKeyCounter s + 1"
    by (simp_all add: reKey_def)
  have hd: "getKey ?s (networkID s) a =
    Some (get_or_new_Set (store s) a ! ((reKeyCounter s + 1) mod length (get_or_new_Set (store s) a)))"
    using Suc.prems by (simp add: getKey_def Let_def st)
  have tl: "reKey_then_getKey i ?s (networkID s) a =
     map (\<lambda>j. Some (get_or_new_Set (store s) a ! ((reKeyCounter s + 1 + Suc j) mod length (get_or_new_Set (store s) a)))) [0..<i]"
    using Suc.IH [of ?s] Suc.prems by (simp add: st)
  have "[0..<Suc i] = 0 # map Suc [0..<i]"
    by (simp add: upt_conv_Cons map_Suc_upt del: upt_Suc)
  then show ?case
    using hd tl by (simp add: Let_def comp_def del: upt_Suc)
qed

lemma reKey_then_getKey_rotate:
  assumes "get_or_new_Set (store s) a \<noteq> []"
  shows "reKey_then_getKey (length (get_or_new_Set (store s) a)) s (networkID s) a =
     map Some (rotate (reKeyCounter s + 1) (get_or_new_Set (store s) a))"
proof -
  let ?ks = "get_or_new_Set (store s) a"
  have "map Some (rotate (reKeyCounter s + 1) ?ks) =
        map Some (map (\<lambda>j. ?ks ! ((reKeyCounter s + 1 + j) mod length ?ks)) [0..<length ?ks])"
    by (simp only: nth_mod_rotate)
  then show ?thesis
    using reKey_then_getKey_nth [OF assms, of "length ?ks"] by (simp add: comp_def)
qed

lemma pools_are_sets_pool: "pools_are_sets s \<Longrightarrow> distinct (get_or_new_Set (store s) a)"
  by (auto simp: pools_are_sets_def get_or_new_Set_def list_all_iff split: option.splits dest!: map_of_SomeD)

lemma pools_new: "pools_are_sets (new_InMemoryMultiKeyStore n)"
  by (simp add: pools_are_sets_def new_InMemoryMultiKeyStore_def)

lemma pools_reKey: "pools_are_sets s \<Longrightarrow> pools_are_sets (reKey s)"
  by (simp add: pools_are_sets_def reKey_def)

lemma pools_clear: "pools_are_sets (clear s)"
  by (simp add: pools_are_sets_def clear_def)

lemma list_all_delete: "list_all P m \<Longrightarrow> list_all P (AList.delete a m)"
  by (induction m) auto

lemma pools_removeKey: "pools_are_sets s \<Longrightarrow> pools_are_sets (removeKey s n a)"
  by (simp add: pools_are_sets_def removeKey_def distinct_delete list_all_delete)

lemma list_all_update:
  "list_all P m \<Longrightarrow> P (a, v) \<Longrightarrow> list_all P (AList.update a v m)"
  by (induction m) auto

lemma pools_setKey: "pools_are_sets s \<Longrightarrow> pools_are_sets (setKey s n a k)"
  using pools_are_sets_pool [of s a]
  by (auto simp: pools_are_sets_def setKey_def Let_def distinct_update distinct_Set_add intro!: list_all_update)

lemma example_store_eq:
  "example_store = \<lparr>networkID = ''testnet'', reKeyCounter = 1, store = [(''alice.near'', [7, 8, 9])]\<rparr>"
  by (simp add: example_store_def reKey_def setKey_def new_InMemoryMultiKeyStore_def
      get_or_new_Set_def Set_add_def)

text \<open>
  C1. Queried with a network that is not the bound one, or for an account whose pool is absent
  or empty, \<open>getKey\<close> returns \<open>undefined\<close> (the model is total: nothing raises). Otherwise
  it returns the member of the pool at index \<open>reKeyCounter mod poolSize\<close> in the insertion
  order of the pool, and \<open>k\<close> times \<open>reKey\<close> followed by \<open>getKey\<close>, for a pool of
  \<open>k\<close> keys, return a rotation of the pool: every key once, none twice.
\<close>

theorem getKey_round_robin:
  assumes "pools_are_sets s"
  shows "(n \<noteq> networkID s \<or> get_or_new_Set (store s) a = [] \<longrightarrow> getKey s n a = None) \<and>
    (n = networkID s \<and> get_or_new_Set (store s) a \<noteq> [] \<longrightarrow>
       getKey s n a = Some (get_or_new_Set (store s) a
                              ! (reKeyCounter s mod length (get_or_new_Set (store s) a))) \<and>
       getKey s n a \<in> Some ` set (get_or_new_Set (store s) a) \<and>
       (let seen = reKey_then_getKey (length (get_or_new_Set (store s) a)) s n a
        in seen = map Some (rotate (reKeyCounter s + 1) (get_or_new_Set (store s) a)) \<and>
           distinct seen \<and> set seen = Some ` set (get_or_new_Set (store s) a)))"
proof -
  let ?ks = "get_or_new_Set (store s) a"
  have none: "n \<noteq> networkID s \<or> ?ks = [] \<Longrightarrow> getKey s n a = None"
    by (auto simp: getKey_def Let_def)
  have d: "distinct ?ks" using assms by (rule pools_are_sets_pool)
  {
    assume n: "n = networkID s" and ne: "?ks \<noteq> []"
    have g: "getKey s n a = Some (?ks ! (reKeyCounter s mod length ?ks))"
      using n ne by (simp add: getKey_def Let_def)
    have m: "getKey s n a \<in> Some ` set ?ks"
      using ne by (simp add: g)
    have r: "reKey_then_getKey (length ?ks) s n a = map Some (rotate (reKeyCounter s + 1) ?ks)"
      using reKey_then_getKey_rotate [OF ne] n by simp
    have "distinct (map Some (rotate (reKeyCounter s + 1) ?ks))"
      using d by (simp add: distinct_map)
    moreover have "set (map Some (rotate (reKeyCounter s + 1) ?ks)) = Some ` set ?ks"
      by simp
    ultimately have "getKey s n a = Some (?ks ! (reKeyCounter s mod length ?ks)) \<and>
       getKey s n a \<in> Some ` set ?ks \<and>
       (let seen = reKey_then_getKey (length ?ks) s n a
        in seen = map Some (rotate (reKeyCounter s + 1) ?ks) \<and>
           distinct seen \<and> set seen = Some ` set ?ks)"
      using g m r by (simp add: Let_def)
  }
  then show ?thesis using none by blast
qed

theorem getKey_round_robin_witness:
  "pools_are_sets example_store \<and>
   getKey example_store ''testnet'' ''alice.near'' = Some 8 \<and>
   reKey_then_getKey 3 example_store ''testnet'' ''alice.near'' = [Some 9, Some 7, Some 8] \<and>
   getKey example_store ''mainnet'' ''alice.near'' = None \<and>
   getKey example_store ''testnet'' ''bob.near'' = None"
proof -
  have p: "pools_are_sets example_store"
    by (simp add: example_store_eq pools_are_sets_def)
  have g: "get_or_new_Set (store example_store) ''alice.near'' = [7, 8, 9]"
          "get_or_new_Set (store example_store) ''bob.near'' = []"
          "networkID example_store = ''testnet''" "reKeyCounter example_store = 1"
    by (simp_all add: example_store_eq get_or_new_Set_def)
  have r: "rotate 2 [7, 8, 9 :: nat] = [9, 7, 8]"
    by (simp add: rotate_def eval_nat_numeral)
  show ?thesis
    unfolding numeral_3_eq_3
    using p getKey_round_robin [OF p, of "''testnet''" "''alice.near''"]
      getKey_round_robin [OF p, of "''mainnet''" "''alice.near''"]
      getKey_round_robin [OF p, of "''testnet''" "''bob.near''"]
    by (simp add: g r Let_def)
qed

text \<open>
  C5 (as amended). Called with a network other than the bound one, \<open>setKey\<close> and
  \<open>removeKey\<close> return the store as it was (pools and rotation counter), \<open>getKey\<close> returns
  \<open>undefined\<close> and \<open>getAccounts\<close> returns no account. No operation changes the bound
  network. \<open>clear\<close> takes no network: it always empties the pool mapping and leaves the
  bound network and the counter alone.
\<close>

theorem mismatched_network_noop:
  assumes "M \<noteq> networkID s"
  shows "setKey s M a keyPair = s \<and> removeKey s M a = s \<and>
         getKey s M a = None \<and> getAccounts s M = [] \<and>
         clear s = s\<lparr>store := []\<rparr> \<and>
         networkID (setKey s n a keyPair) = networkID s \<and>
         networkID (removeKey s n a) = networkID s \<and>
         networkID (reKey s) = networkID s \<and>
         networkID (clear s) = networkID s"
  using assms
  by (simp add: setKey_def removeKey_def getKey_def getAccounts_def clear_def reKey_def Let_def)

theorem mismatched_network_noop_witness:
  "setKey example_store ''mainnet'' ''alice.near'' 5 = example_store \<and>
   removeKey example_store ''mainnet'' ''alice.near'' = example_store \<and>
   getKey example_store ''mainnet'' ''alice.near'' = None \<and>
   getAccounts example_store ''mainnet'' = [] \<and>
   store (clear example_store) = []"
proof -
  have n: "''mainnet'' \<noteq> networkID example_store"
    by (simp add: example_store_eq)
  show ?thesis
    using mismatched_network_noop [OF n, of "''alice.near''" 5 "''mainnet''"] by simp
qed

text \<open>
  C5 as stated fails for \<open>clear\<close>: a call of \<open>clear\<close> cannot name a network, and on a
  store that holds a pool it changes the pool mapping.
\<close>

theorem clear_counterexample:
  "store (clear example_store) \<noteq> store example_store"
  by (simp add: example_store_eq clear_def)

lemma example_KeyStore_store:
  "ks_keyStore example_KeyStore =
     \<lparr>networkID = ''testnet'', reKeyCounter = 0, store = [(''bob.near'', [1]), (''alice.near'', [2])]\<rparr>"
  by (simp add: example_KeyStore_def setKey_def new_InMemoryMultiKeyStore_def
      get_or_new_Set_def Set_add_def)

text \<open>
  C8. \<open>getAccounts()\<close> of the merged key store returns exactly the accounts that the
  constituents list for the bound network, each once, in ascending lexicographic order.
\<close>

theorem KeyStore_getAccounts_sorted_union:
  "set (KeyStore_getAccounts K) =
     (\<Union>src \<in> set (merged_keyStores K). set (source_getAccounts src (ks_networkID K))) \<and>
   distinct (KeyStore_getAccounts K) \<and> sorted (KeyStore_getAccounts K)"
  by (simp add: KeyStore_getAccounts_def MergeKeyStore_getAccounts_def Let_def
      set_Set_of_array distinct_Set_of_array)

theorem KeyStore_getAccounts_sorted_union_witness:
  "set (KeyStore_getAccounts example_KeyStore) = {''alice.near'', ''bob.near'', ''carol.near''} \<and>
   distinct (KeyStore_getAccounts example_KeyStore) \<and> sorted (KeyStore_getAccounts example_KeyStore)"
proof -
  have k: "ks_networkID example_KeyStore = ''testnet''"
    "ks_keyStores example_KeyStore =
       [LibraryKeyStore (\<lambda>n. if n = ''testnet'' then [''carol.near'', ''alice.near''] else [])]"
    by (simp_all add: example_KeyStore_def)
  show ?thesis
    using KeyStore_getAccounts_sorted_union [of example_KeyStore]
    by (auto simp: merged_keyStores_def example_KeyStore_store k getAccounts_def)
qed

section \<open>Properties of the engine\<close>

lemma stub_env_simps:
  "parseHexString stub_env = (\<lambda>s. Inl (new_Error ''Error'' ''invalid arrayify value''))"
  "parseRawTransaction stub_env =
     (\<lambda>b. if length b < 2 then Inl (new_Error ''Error'' ''invalid raw transaction'')
          else Inr \<lparr>gasLimit = toBigIntBE b\<rparr>)"
  "functionCall stub_env =
     (\<lambda>c m a g. Inr \<lparr>status = StatusObject (Some ''AA==''), transaction_hash = ''h1'',
                      transaction_outcome_id = Some ''t1'', outcome_toString = ''[object Object]''\<rparr>)"
  "txStatus stub_env =
     (\<lambda>h c. Inr \<lparr>receipts_outcome = [\<lparr>gas_burnt = 10\<rparr>, \<lparr>gas_burnt = 20\<rparr>],
                  transaction_outcome = \<lparr>gas_burnt = 5\<rparr>\<rparr>)"
  "query stub_env = (\<lambda>q. Inr \<lparr>result_bytes = [], logs = []\<rparr>)"
  "viewState stub_env = (\<lambda>p f. Inr [])"
  "base58ToBytes stub_env =
     (\<lambda>i. case i of None \<Rightarrow> Inl (new_Error ''TypeError'' ''Expected String'')
                   | Some s \<Rightarrow> Inr (map (\<lambda>c. of_nat (of_char c)) s))"
  "base64_encode stub_env = toString_hex"
  "base64_decode stub_env = (\<lambda>s. [])"
  "JSON_stringify stub_env = (\<lambda>d. ''{}'')"
  "TransactionID_fromHex stub_env = (\<lambda>s. s)"
  "SubmitResult_decode stub_env = (\<lambda>b. Inr b)"
  "Address_parse stub_env = (\<lambda>s. if length s = 40 then Inr s else Inl ''ERR_INVALID_ADDRESS'')"
  by (simp_all add: stub_env_def)

lemma transactionGasBurned_engine:
  "backend_calls (snd (transactionGasBurned env eng ident)) =
     backend_calls eng @ (case base58ToBytes env ident of Inl e \<Rightarrow> [] | Inr h \<Rightarrow> [TxStatus h (contractID eng)]) \<and>
   contractID (snd (transactionGasBurned env eng ident)) = contractID eng \<and>
   keyStore (snd (transactionGasBurned env eng ident)) = keyStore eng"
  by (simp add: transactionGasBurned_def log_call_def Let_def split: sum.splits)

lemma foldl_gas: "foldl (\<lambda>sum value. sum + gas_burnt value) a xs = a + sum_list (map gas_burnt xs)"
  by (induction xs arbitrary: a) simp_all

lemma transactionGasBurned_value:
  "fst (transactionGasBurned env eng ident) =
     (case base58ToBytes env ident of
        Inl e \<Rightarrow> 0
      | Inr h \<Rightarrow> (case txStatus env h (contractID eng) of
                   Inl e \<Rightarrow> 0
                 | Inr st \<Rightarrow> sum_list (map gas_burnt (receipts_outcome st)) + gas_burnt (transaction_outcome st)))"
  by (simp add: transactionGasBurned_def Let_def foldl_gas or_zero_def split: sum.splits)

lemma transactionGasBurned_contract:
  "contractID eng' = contractID eng \<Longrightarrow>
   fst (transactionGasBurned env eng' ident) = fst (transactionGasBurned env eng ident)"
  by (simp add: transactionGasBurned_value split: sum.splits)

lemma callMutativeFunction_success:
  assumes "prepareInput env args = Inr input"
    and "functionCall env (contractID eng) m input gas = Inr result"
    and "status result = StatusObject (Some sv)"
  shows "fst (callMutativeFunction env eng m args) =
     Ok \<lparr>outcome_id = TransactionID_fromHex env (transaction_hash result),
         output_bytes = base64_decode env sv,
         gasBurned = fst (transactionGasBurned env eng (transaction_outcome_id result)),
         tx = transaction_outcome_id result\<rparr>"
proof -
  let ?eng2 = "log_call (FunctionCall (contractID eng) m input gas) (eng\<lparr>keyStore := KeyStore_reKey (keyStore eng)\<rparr>)"
  have c: "contractID ?eng2 = contractID eng" by (simp add: log_call_def)
  have "fst (transactionGasBurned env ?eng2 (transaction_outcome_id result)) =
        fst (transactionGasBurned env eng (transaction_outcome_id result))"
    using c by (rule transactionGasBurned_contract)
  then show ?thesis
    using assms by (simp add: callMutativeFunction_def Let_def split_beta)
qed

lemma callMutativeFunction_calls:
  assumes "prepareInput env args = Inr input"
  shows "\<exists>rest. backend_calls (snd (callMutativeFunction env eng m args)) =
     backend_calls eng @ FunctionCall (contractID eng) m input gas # rest"
  using assms
  by (auto simp: callMutativeFunction_def callMutativeFunction_catch_def Let_def split_beta log_call_def
      transactionGasBurned_engine split: sum.splits FinalExecutionStatus.splits option.splits)

text \<open>
  C2. For a payload whose bytes \<open>prepareInput\<close> delivers (every \<open>Uint8Array\<close>, and a
  string that is well-formed hexadecimal): a payload that does not parse as a raw transaction
  makes \<open>submit\<close> return \<open>Err('ERR_INVALID_TX')\<close> and one that parses with a gas limit
  below 21000 makes it return \<open>Err('ERR_INTRINSIC_GAS')\<close>, both with the engine as it was: no
  backend call and no key rotation. A payload that passes both checks is forwarded as the
  mutating call \<open>submit\<close> with the same bytes, and only such a payload reaches the backend.
\<close>

theorem submit_prechecks:
  assumes "prepareInput env input = Inr inputBytes"
  shows "(\<forall>error. parseRawTransaction env inputBytes = Inl error \<longrightarrow>
            submit env eng input = (Err ''ERR_INVALID_TX'', eng)) \<and>
         (\<forall>rt. parseRawTransaction env inputBytes = Inr rt \<and> gasLimit rt < 21000 \<longrightarrow>
            submit env eng input = (Err ''ERR_INTRINSIC_GAS'', eng)) \<and>
         (\<forall>rt. parseRawTransaction env inputBytes = Inr rt \<and> 21000 \<le> gasLimit rt \<longrightarrow>
            (\<exists>rest. backend_calls (snd (submit env eng input)) =
               backend_calls eng @ FunctionCall (contractID eng) ''submit'' inputBytes gas # rest)) \<and>
         (backend_calls (snd (submit env eng input)) \<noteq> backend_calls eng \<longrightarrow>
            (\<exists>rt. parseRawTransaction env inputBytes = Inr rt \<and> 21000 \<le> gasLimit rt))"
proof -
  have p: "prepareInput env (ArgBytes inputBytes) = Inr inputBytes"
    by (simp add: prepareInput_def)
  have fwd: "\<exists>rest. backend_calls (snd (submit env eng input)) =
               backend_calls eng @ FunctionCall (contractID eng) ''submit'' inputBytes gas # rest"
    if "parseRawTransaction env inputBytes = Inr rt" "21000 \<le> gasLimit rt" for rt
  proof -
    obtain rest where r: "backend_calls (snd (callMutativeFunction env eng ''submit'' (ArgBytes inputBytes))) =
       backend_calls eng @ FunctionCall (contractID eng) ''submit'' inputBytes gas # rest"
      using callMutativeFunction_calls [OF p] by blast
    have "snd (submit env eng input) = snd (callMutativeFunction env eng ''submit'' (ArgBytes inputBytes))"
      using assms that by (simp add: submit_def split_beta split: Result.splits sum.splits)
    then show ?thesis using r by simp
  qed
  have inv: "submit env eng input = (Err ''ERR_INVALID_TX'', eng)"
    if "parseRawTransaction env inputBytes = Inl error" for error
    using assms that by (simp add: submit_def)
  have gasl: "submit env eng input = (Err ''ERR_INTRINSIC_GAS'', eng)"
    if "parseRawTransaction env inputBytes = Inr rt" "gasLimit rt < 21000" for rt
    using assms that by (simp add: submit_def)
  have only: "\<exists>rt. parseRawTransaction env inputBytes = Inr rt \<and> 21000 \<le> gasLimit rt"
    if "backend_calls (snd (submit env eng input)) \<noteq> backend_calls eng"
  proof (cases "parseRawTransaction env inputBytes")
    case (Inl e)
    then show ?thesis using inv that by simp
  next
    case (Inr rt)
    then show ?thesis using gasl [of rt] that by (cases "gasLimit rt < 21000") auto
  qed
  show ?thesis using fwd inv gasl only by blast
qed

theorem submit_prechecks_witness:
  "submit stub_env stub_engine (ArgBytes [0x4e, 0x20]) = (Err ''ERR_INTRINSIC_GAS'', stub_engine) \<and>
   submit stub_env stub_engine (ArgBytes [0x4e]) = (Err ''ERR_INVALID_TX'', stub_engine) \<and>
   (\<exists>rest. backend_calls (snd (submit stub_env stub_engine (ArgBytes [0x52, 0x08]))) =
      FunctionCall ''aurora'' ''submit'' [0x52, 0x08] gas # rest)"
proof -
  have p: "prepareInput stub_env (ArgBytes b) = Inr b" for b
    by (simp add: prepareInput_def)
  have e: "backend_calls stub_engine = []" "contractID stub_engine = ''aurora''"
    by (simp_all add: stub_engine_def)
  show ?thesis
    using submit_prechecks [OF p, of "[0x4e, 0x20]" stub_engine]
      submit_prechecks [OF p, of "[0x4e]" stub_engine]
      submit_prechecks [OF p, of "[0x52, 0x08]" stub_engine]
    by (simp add: stub_env_simps toBigIntBE_def e)
qed

text \<open>
  C4. When the reference decodes and the status query answers, the gas burned is the sum of
  \<open>gas_burnt\<close> over the receipts' outcomes plus the \<open>gas_burnt\<close> of the transaction's
  own outcome. When the decoding of the reference or the status query throws, it is 0. The
  function always returns a number, and a mutating call whose backend response carries a
  success value returns \<open>Ok\<close> with that number, whatever the status query did.
\<close>

theorem gas_burned_sum:
  "(\<forall>hash st. base58ToBytes env ident = Inr hash \<and> txStatus env hash (contractID eng) = Inr st \<longrightarrow>
       fst (transactionGasBurned env eng ident) =
         sum_list (map gas_burnt (receipts_outcome st)) + gas_burnt (transaction_outcome st)) \<and>
   ((\<exists>e. base58ToBytes env ident = Inl e) \<or>
    (\<exists>hash e. base58ToBytes env ident = Inr hash \<and> txStatus env hash (contractID eng) = Inl e) \<longrightarrow>
       fst (transactionGasBurned env eng ident) = 0) \<and>
   (\<forall>input result sv. prepareInput env args = Inr input \<and>
       functionCall env (contractID eng) m input gas = Inr result \<and>
       status result = StatusObject (Some sv) \<longrightarrow>
       (\<exists>out. fst (callMutativeFunction env eng m args) = Ok out \<and>
              tx out = transaction_outcome_id result \<and>
              gasBurned out = fst (transactionGasBurned env eng (transaction_outcome_id result))))"
proof (intro conjI allI impI)
  fix hash st
  assume "base58ToBytes env ident = Inr hash \<and> txStatus env hash (contractID eng) = Inr st"
  then show "fst (transactionGasBurned env eng ident) =
         sum_list (map gas_burnt (receipts_outcome st)) + gas_burnt (transaction_outcome st)"
    by (simp add: transactionGasBurned_value)
next
  assume "(\<exists>e. base58ToBytes env ident = Inl e) \<or>
    (\<exists>hash e. base58ToBytes env ident = Inr hash \<and> txStatus env hash (contractID eng) = Inl e)"
  then show "fst (transactionGasBurned env eng ident) = 0"
    by (auto simp: transactionGasBurned_value)
next
  fix input result sv
  assume a: "prepareInput env args = Inr input \<and>
       functionCall env (contractID eng) m input gas = Inr result \<and>
       status result = StatusObject (Some sv)"
  show "\<exists>out. fst (callMutativeFunction env eng m args) = Ok out \<and>
              tx out = transaction_outcome_id result \<and>
              gasBurned out = fst (transactionGasBurned env eng (transaction_outcome_id result))"
    using a callMutativeFunction_success [of env args input eng m result sv] by simp
qed

theorem gas_burned_sum_witness:
  "fst (transactionGasBurned stub_env stub_engine (Some ''t1'')) = 35 \<and>
   fst (transactionGasBurned stub_env stub_engine None) = 0 \<and>
   fst (transactionGasBurned (stub_env\<lparr>txStatus := \<lambda>h c. Inl (new_Error ''Error'' ''timeout'')\<rparr>)
          stub_engine (Some ''t1'')) = 0 \<and>
   (\<exists>out. fst (callMutativeFunction (stub_env\<lparr>txStatus := \<lambda>h c. Inl (new_Error ''Error'' ''timeout'')\<rparr>)
                 stub_engine ''call'' ArgUndefined) = Ok out \<and> tx out = Some ''t1'' \<and> gasBurned out = 0)"
proof -
  let ?bad = "stub_env\<lparr>txStatus := \<lambda>h c. Inl (new_Error ''Error'' ''timeout'')\<rparr>"
  have a: "fst (transactionGasBurned stub_env stub_engine (Some ''t1'')) = 35"
    using gas_burned_sum [of stub_env "Some ''t1''" stub_engine ArgUndefined "''call''"]
    by (simp add: stub_env_simps)
  have b: "fst (transactionGasBurned stub_env stub_engine None) = 0"
    using gas_burned_sum [of stub_env None stub_engine ArgUndefined "''call''"]
    by (simp add: stub_env_simps)
  have c: "fst (transactionGasBurned ?bad stub_engine (Some ''t1'')) = 0"
    using gas_burned_sum [of ?bad "Some ''t1''" stub_engine ArgUndefined "''call''"]
    by (simp add: stub_env_simps)
  have d: "\<exists>out. fst (callMutativeFunction ?bad stub_engine ''call'' ArgUndefined) = Ok out \<and>
             tx out = Some ''t1'' \<and> gasBurned out = 0"
    using gas_burned_sum [of ?bad "Some ''t1''" stub_engine ArgUndefined "''call''"] c
    by (simp add: stub_env_simps prepareInput_def)
  show ?thesis using a b c d by blast
qed

text \<open>
  C9. A mutating call whose backend call returns, with a status that is not an object with a
  string \<open>SuccessValue\<close>, returns \<open>Err\<close> of the string representation of the response.
\<close>

theorem no_success_value:
  assumes "prepareInput env args = Inr input"
    and "functionCall env (contractID eng) m input gas = Inr result"
    and "\<forall>sv. status result \<noteq> StatusObject (Some sv)"
  shows "fst (callMutativeFunction env eng m args) = Err (outcome_toString result)"
  using assms
  by (simp add: callMutativeFunction_def Let_def log_call_def split: FinalExecutionStatus.splits option.splits)

theorem no_success_value_witness:
  "fst (callMutativeFunction
          (stub_env\<lparr>functionCall := \<lambda>c m a g. Inr \<lparr>status = StatusBasic ''Failure'', transaction_hash = ''h1'',
                         transaction_outcome_id = Some ''t1'', outcome_toString = ''[object Object]''\<rparr>\<rparr>)
          stub_engine ''call'' ArgUndefined) = Err ''[object Object]''"
  using no_success_value [of "stub_env\<lparr>functionCall := \<lambda>c m a g. Inr \<lparr>status = StatusBasic ''Failure'', transaction_hash = ''h1'',
                         transaction_outcome_id = Some ''t1'', outcome_toString = ''[object Object]''\<rparr>\<rparr>"
        ArgUndefined "[]" stub_engine "''call''"]
  by (simp add: prepareInput_def)

text \<open>
  C6. A view call whose argument bytes \<open>prepareInput\<close> delivers sends exactly one query.
  Without a block selector (\<open>options\<close> or \<open>options.block\<close> is \<open>undefined\<close> or
  \<open>null\<close>) the query carries finality \<open>final\<close> and no block identifier; with a selector
  it carries that selector as the block identifier and no finality; so exactly one of the two
  is sent. Omitted argument bytes are sent as the encoding of the empty byte string.
\<close>

theorem callFunction_request:
  assumes "prepareInput env args = Inr input"
  shows "\<exists>q. backend_calls (snd (callFunction env eng m args options)) = backend_calls eng @ [Query q] \<and>
     request_type q = ''call_function'' \<and> account_id q = contractID eng \<and> method_name q = m \<and>
     args_base64 q = base64_encode env input \<and>
     (options_block options = JSUndefined \<or> options_block options = JSNull \<longrightarrow>
        finality q = Some ''final'' \<and> block_id q = None) \<and>
     (\<forall>b. options_block options = JSValue b \<longrightarrow> block_id q = Some b \<and> finality q = None) \<and>
     ((finality q = None) \<noteq> (block_id q = None)) \<and>
     (args = ArgUndefined \<longrightarrow> args_base64 q = base64_encode env [])"
proof -
  let ?q = "\<lparr>request_type = ''call_function'', account_id = contractID eng, method_name = m,
             args_base64 = base64_encode env input,
             finality = (if options_block options = JSUndefined \<or> options_block options = JSNull
                         then Some ''final'' else None),
             block_id = (if options_block options \<noteq> JSUndefined \<and> options_block options \<noteq> JSNull
                         then (case options_block options of JSValue b \<Rightarrow> Some b | _ \<Rightarrow> None)
                         else None)\<rparr>"
  have calls: "backend_calls (snd (callFunction env eng m args options)) = backend_calls eng @ [Query ?q]"
    using assms by (simp add: callFunction_def Let_def log_call_def split: sum.splits)
  have empty: "args = ArgUndefined \<Longrightarrow> input = []"
    using assms by (simp add: prepareInput_def)
  have fields: "request_type ?q = ''call_function''" "account_id ?q = contractID eng"
    "method_name ?q = m" "args_base64 ?q = base64_encode env input"
    by simp_all
  have fin: "options_block options = JSUndefined \<or> options_block options = JSNull \<Longrightarrow>
      finality ?q = Some ''final'' \<and> block_id ?q = None"
    by auto
  have blk: "options_block options = JSValue b \<Longrightarrow> block_id ?q = Some b \<and> finality ?q = None" for b
    by simp
  have one: "(finality ?q = None) \<noteq> (block_id ?q = None)"
    by (cases "options_block options") simp_all
  show ?thesis
    using calls fields fin blk one empty by (intro exI [of _ ?q]) blast
qed

theorem callFunction_request_witness:
  "(\<exists>q. backend_calls (snd (callFunction stub_env stub_engine ''get_version'' ArgUndefined None)) = [Query q] \<and>
        finality q = Some ''final'' \<and> block_id q = None \<and> args_base64 q = []) \<and>
   (\<exists>q. backend_calls (snd (callFunction stub_env stub_engine ''get_nonce'' (ArgBytes [1, 2])
                               (Some \<lparr>block = JSValue (BlockNumber 7)\<rparr>))) = [Query q] \<and>
        finality q = None \<and> block_id q = Some (BlockNumber 7) \<and> args_base64 q = ''0102'')"
proof -
  have p: "prepareInput stub_env ArgUndefined = Inr []" "prepareInput stub_env (ArgBytes [1, 2]) = Inr [1, 2]"
    by (simp_all add: prepareInput_def)
  have e: "backend_calls stub_engine = []"
    by (simp add: stub_engine_def)
  have h: "toString_hex [] = []" "toString_hex [1, 2] = ''0102''"
    by (simp_all add: toString_hex_def hex_digit_def)
  show ?thesis
    using callFunction_request [OF p(1), of stub_engine "''get_version''" None]
      callFunction_request [OF p(2), of stub_engine "''get_nonce''" "Some \<lparr>block = JSValue (BlockNumber 7)\<rparr>"]
    by (simp add: e h options_block_def stub_env_simps) blast
qed

lemma String_replace_prefix: "p \<noteq> [] \<Longrightarrow> String_replace p [] (p @ rest) = rest"
  by (cases p) simp_all

lemma String_replace_absent:
  "p \<noteq> [] \<Longrightarrow> \<forall>pre post. msg \<noteq> pre @ p @ post \<Longrightarrow> String_replace p [] msg = msg"
proof (induction msg)
  case Nil
  then show ?case by simp
next
  case (Cons c cs)
  have no: "take (length p) (c # cs) \<noteq> p"
  proof
    assume "take (length p) (c # cs) = p"
    then have "c # cs = [] @ p @ drop (length p) (c # cs)"
      by (metis append_Nil append_take_drop_id)
    then show False using Cons.prems(2) by blast
  qed
  have "\<forall>pre post. cs \<noteq> pre @ p @ post"
  proof (intro allI notI)
    fix pre post assume "cs = pre @ p @ post"
    then have "c # cs = (c # pre) @ p @ post" by simp
    then show False using Cons.prems(2) by blast
  qed
  then have "String_replace p [] cs = cs" using Cons.IH Cons.prems(1) by blast
  then show ?case using no by simp
qed

lemma callMutativeFunction_throw:
  assumes "prepareInput env args = Inr input"
    and "functionCall env (contractID eng) m input gas = Inl error"
  shows "fst (callMutativeFunction env eng m args) =
     fst (callMutativeFunction_catch env
            (log_call (FunctionCall (contractID eng) m input gas)
               (eng\<lparr>keyStore := KeyStore_reKey (keyStore eng)\<rparr>)) error)"
  using assms by (simp add: callMutativeFunction_def Let_def)

lemma callMutativeFunction_catch_value:
  "fst (callMutativeFunction_catch env eng error) =
     (if err_type error = Some ''FunctionCallError'' then
        Err (errorWithDetails env
               (case err_kind_ExecutionError error of
                  Some errorKind \<Rightarrow>
                    if errorKind \<noteq> [] then String_replace ''Smart contract panicked: '' [] errorKind
                    else err_message error
                | None \<Rightarrow> err_message error)
               \<lparr>details_tx = err_transaction_outcome_id error,
                details_gasBurned = fst (transactionGasBurned env eng (err_transaction_outcome_id error))\<rparr>)
      else if err_type error = Some ''MethodNotFound'' then Err (err_message error)
      else Err (err_toString error))"
  by (simp add: callMutativeFunction_catch_def Let_def split_beta split: option.splits)

text \<open>
  C7 (as amended). When the backend call throws an error of type \<open>FunctionCallError\<close> with a
  non-empty \<open>ExecutionError\<close> text, the \<open>Err\<close> message is that text with the first
  occurrence of \<open>Smart contract panicked: \<close> removed, then a bar, then the serialised details
  holding the transaction reference and the gas burned. The removal strips the prefix when the
  text starts with it and changes nothing when the text does not contain it. For type
  \<open>MethodNotFound\<close> the message is the backend message alone; for any other type it is the
  string representation of the error.
\<close>

theorem callMutativeFunction_errors:
  assumes "prepareInput env args = Inr input"
    and "functionCall env (contractID eng) m input gas = Inl error"
  shows "(\<forall>msg. err_type error = Some ''FunctionCallError'' \<and>
            err_kind_ExecutionError error = Some msg \<and> msg \<noteq> [] \<longrightarrow>
            fst (callMutativeFunction env eng m args) =
              Err (String_replace ''Smart contract panicked: '' [] msg @ ''|'' @
                   JSON_stringify env
                     \<lparr>details_tx = err_transaction_outcome_id error,
                      details_gasBurned =
                        fst (transactionGasBurned env eng (err_transaction_outcome_id error))\<rparr>)) \<and>
         (\<forall>rest. String_replace ''Smart contract panicked: '' [] (''Smart contract panicked: '' @ rest) = rest) \<and>
         (\<forall>msg. (\<forall>pre post. msg \<noteq> pre @ ''Smart contract panicked: '' @ post) \<longrightarrow>
            String_replace ''Smart contract panicked: '' [] msg = msg) \<and>
         (err_type error = Some ''MethodNotFound'' \<longrightarrow>
            fst (callMutativeFunction env eng m args) = Err (err_message error)) \<and>
         (err_type error \<noteq> Some ''FunctionCallError'' \<and> err_type error \<noteq> Some ''MethodNotFound'' \<longrightarrow>
            fst (callMutativeFunction env eng m args) = Err (err_toString error))"
proof -
  let ?eng2 = "log_call (FunctionCall (contractID eng) m input gas)
                 (eng\<lparr>keyStore := KeyStore_reKey (keyStore eng)\<rparr>)"
  have c: "contractID ?eng2 = contractID eng" by (simp add: log_call_def)
  have g: "fst (transactionGasBurned env ?eng2 i) = fst (transactionGasBurned env eng i)" for i
    using c by (rule transactionGasBurned_contract)
  have v: "fst (callMutativeFunction env eng m args) = fst (callMutativeFunction_catch env ?eng2 error)"
    using assms by (rule callMutativeFunction_throw)
  have a: "fst (callMutativeFunction env eng m args) =
              Err (String_replace ''Smart contract panicked: '' [] msg @ ''|'' @
                   JSON_stringify env
                     \<lparr>details_tx = err_transaction_outcome_id error,
                      details_gasBurned =
                        fst (transactionGasBurned env eng (err_transaction_outcome_id error))\<rparr>)"
    if "err_type error = Some ''FunctionCallError''" "err_kind_ExecutionError error = Some msg" "msg \<noteq> []"
    for msg
    using that by (simp add: v callMutativeFunction_catch_value g errorWithDetails_def)
  have b: "String_replace ''Smart contract panicked: '' [] (''Smart contract panicked: '' @ rest) = rest" for rest
    by (rule String_replace_prefix) simp
  have d: "String_replace ''Smart contract panicked: '' [] msg = msg"
    if "\<forall>pre post. msg \<noteq> pre @ ''Smart contract panicked: '' @ post" for msg
    using that by (intro String_replace_absent) simp_all
  have e: "err_type error = Some ''MethodNotFound'' \<Longrightarrow>
            fst (callMutativeFunction env eng m args) = Err (err_message error)"
    by (simp add: v callMutativeFunction_catch_value)
  have f: "err_type error \<noteq> Some ''FunctionCallError'' \<and> err_type error \<noteq> Some ''MethodNotFound'' \<Longrightarrow>
            fst (callMutativeFunction env eng m args) = Err (err_toString error)"
    by (simp add: v callMutativeFunction_catch_value)
  show ?thesis using a b d e f by blast
qed

theorem callMutativeFunction_errors_witness:
  "fst (callMutativeFunction panic_env stub_engine ''call'' ArgUndefined) = Err ''wasm trap. ERR_X|{}''"
proof -
  have p: "prepareInput panic_env ArgUndefined = Inr []"
    by (simp add: prepareInput_def)
  have f: "functionCall panic_env (contractID stub_engine) ''call'' [] gas = Inl panic_error"
    by (simp add: panic_env_def)
  have j: "JSON_stringify panic_env = (\<lambda>d. ''{}'')"
    by (simp add: panic_env_def stub_env_simps)
  show ?thesis
    using callMutativeFunction_errors [OF p f]
    by (simp add: panic_error_def j)
qed

text \<open>
  C7 as stated fails: a text that holds the phrase after other characters loses the phrase,
  where stripping a prefix would leave the text as it is.
\<close>

theorem panic_prefix_counterexample:
  "fst (callMutativeFunction panic_env stub_engine ''call'' ArgUndefined) = Err ''wasm trap. ERR_X|{}'' \<and>
   errorWithDetails panic_env
     (spec_strip_prefix ''Smart contract panicked: '' ''wasm trap. Smart contract panicked: ERR_X'')
     \<lparr>details_tx = Some ''t1'', details_gasBurned = 35\<rparr> = ''wasm trap. Smart contract panicked: ERR_X|{}'' \<and>
   fst (callMutativeFunction panic_env stub_engine ''call'' ArgUndefined) \<noteq>
     Err (errorWithDetails panic_env
            (spec_strip_prefix ''Smart contract panicked: '' ''wasm trap. Smart contract panicked: ERR_X'')
            \<lparr>details_tx = Some ''t1'', details_gasBurned = 35\<rparr>)"
proof -
  have p: "prepareInput panic_env ArgUndefined = Inr []"
    by (simp add: prepareInput_def)
  have f: "functionCall panic_env (contractID stub_engine) ''call'' [] gas = Inl panic_error"
    by (simp add: panic_env_def)
  have j: "JSON_stringify panic_env = (\<lambda>d. ''{}'')"
    by (simp add: panic_env_def stub_env_simps)
  have v: "fst (callMutativeFunction panic_env stub_engine ''call'' ArgUndefined) = Err ''wasm trap. ERR_X|{}''"
    by (simp add: callMutativeFunction_throw [OF p f] callMutativeFunction_catch_value
        panic_error_def errorWithDetails_def j)
  have w: "errorWithDetails panic_env
     (spec_strip_prefix ''Smart contract panicked: '' ''wasm trap. Smart contract panicked: ERR_X'')
     \<lparr>details_tx = Some ''t1'', details_gasBurned = 35\<rparr> = ''wasm trap. Smart contract panicked: ERR_X|{}''"
    by (simp add: errorWithDetails_def spec_strip_prefix_def j)
  show ?thesis using v w by simp
qed

lemma callFunction_calls:
  "prepareInput env args = Inr input \<Longrightarrow>
   \<exists>q. backend_calls (snd (callFunction env eng m args options)) = backend_calls eng @ [Query q] \<and>
       block_id q = (case options_block options of JSValue b \<Rightarrow> Some b | _ \<Rightarrow> None) \<and>
       finality q = (case options_block options of JSValue b \<Rightarrow> None | _ \<Rightarrow> Some ''final'')"
  by (cases "options_block options")
     (simp_all add: callFunction_def Let_def log_call_def split: sum.splits)

text \<open>
  C10 at block height 0. The height 0 is falsy, so \<open>getCode\<close> skips the increment: the
  caller's \<open>options\<close> keep \<open>block\<close> 0 and the query is sent with block identifier 0,
  which \<open>callFunction\<close> accepts as a selector.
\<close>

theorem getCode_block_zero:
  "getCode env eng a (Some \<lparr>block = JSValue (BlockNumber 0)\<rparr>) =
     (fst (callFunction env eng ''get_code'' (ArgBytes a) (Some \<lparr>block = JSValue (BlockNumber 0)\<rparr>)),
      Some \<lparr>block = JSValue (BlockNumber 0)\<rparr>,
      snd (callFunction env eng ''get_code'' (ArgBytes a) (Some \<lparr>block = JSValue (BlockNumber 0)\<rparr>))) \<and>
   (\<exists>q. backend_calls (snd (snd (getCode env eng a (Some \<lparr>block = JSValue (BlockNumber 0)\<rparr>)))) =
          backend_calls eng @ [Query q] \<and>
        block_id q = Some (BlockNumber 0) \<and> finality q = None)"
proof -
  let ?o = "Some \<lparr>block = JSValue (BlockNumber 0)\<rparr>"
  have g: "getCode env eng a ?o =
     (fst (callFunction env eng ''get_code'' (ArgBytes a) ?o), ?o,
      snd (callFunction env eng ''get_code'' (ArgBytes a) ?o))"
    by (simp add: getCode_def Let_def split_beta)
  have p: "prepareInput env (ArgBytes a) = Inr a"
    by (simp add: prepareInput_def)
  show ?thesis
    using callFunction_calls [OF p, of eng "''get_code''" ?o]
    by (simp add: g options_block_def)
qed

text \<open>For a positive height the increment happens and is visible in the caller's options.\<close>

lemma getCode_block_positive:
  assumes "0 < n"
  shows "fst (snd (getCode env eng a (Some \<lparr>block = JSValue (BlockNumber n)\<rparr>))) =
           Some \<lparr>block = JSValue (BlockNumber (n + 1))\<rparr> \<and>
   (\<exists>q. backend_calls (snd (snd (getCode env eng a (Some \<lparr>block = JSValue (BlockNumber n)\<rparr>)))) =
          backend_calls eng @ [Query q] \<and>
        block_id q = Some (BlockNumber (n + 1)) \<and> finality q = None)"
proof -
  let ?o = "Some \<lparr>block = JSValue (BlockNumber n)\<rparr>"
  let ?o' = "Some \<lparr>block = JSValue (BlockNumber (n + 1))\<rparr>"
  have g: "getCode env eng a ?o =
     (fst (callFunction env eng ''get_code'' (ArgBytes a) ?o'), ?o',
      snd (callFunction env eng ''get_code'' (ArgBytes a) ?o'))"
    using assms by (simp add: getCode_def Let_def split_beta)
  have p: "prepareInput env (ArgBytes a) = Inr a"
    by (simp add: prepareInput_def)
  show ?thesis
    using callFunction_calls [OF p, of eng "''get_code''" ?o']
    by (simp add: g options_block_def)
qed

lemma getStorage_record_Config:
  "key r = 0 # rest \<Longrightarrow> getStorage_record env result r = Inr result"
  by (simp add: getStorage_record_def Config_def)

lemma getStorage_record_entry:
  assumes "key r = t # k" and "t \<noteq> 0"
    and "a = (if unat t = 4 then take 20 k else k)"
    and "scan_entry env result a = Some state"
  shows "getStorage_record env result r =
     Inr (AList.update (toString_hex a)
            (if unat t = 1 then state\<lparr>nonce := toBigIntBE (val r)\<rparr>
             else if unat t = 2 then state\<lparr>balance := toBigIntBE (val r)\<rparr>
             else if unat t = 3 then state\<lparr>code := Some (val r)\<rparr>
             else if unat t = 4 then
               state\<lparr>storage := AList.update (toBigIntBE (drop 20 k)) (toBigIntBE (val r)) (storage state)\<rparr>
             else state)
            result)"
proof -
  have t0: "unat t \<noteq> 0" using assms(2) by (simp add: unat_eq_0)
  have ka: "(if Some (unat t) = Some Storage then subarray (key r) 1 21 else subarray_from (key r) 1) = a"
    using assms(1,3) by (simp add: subarray_def subarray_from_def Storage_def)
  have sl: "subarray_from (key r) 21 = drop 20 k"
    using assms(1) by (simp add: subarray_from_def)
  show ?thesis
  proof (cases "map_of result (toString_hex a)")
    case (Some st)
    then have "st = state" using assms(4) by (simp add: scan_entry_def)
    then show ?thesis
      using Some t0 assms(1) ka sl
      by (simp add: getStorage_record_def Let_def Config_def Nonce_def Balance_def Code_def Storage_def)
  next
    case None
    then obtain x where x: "Address_parse env (toString_hex a) = Inr x"
      and s: "state = new_AddressState x"
      using assms(4) by (auto simp: scan_entry_def new_AddressState_def split: sum.splits)
    show ?thesis
      using None x s t0 assms(1) ka sl
      by (simp add: getStorage_record_def Let_def Config_def Nonce_def Balance_def Code_def Storage_def
          update_conv')
  qed
qed


lemma hex_digit_lower: "hex_digit d \<in> set ''0123456789abcdef''"
  unfolding hex_digit_def by (rule nth_mem) simp

lemma toString_hex_lower: "set (toString_hex bs) \<subseteq> set ''0123456789abcdef''"
  unfolding toString_hex_def using hex_digit_lower by (induction bs) auto

text \<open>
  C3. The scan starts from the map it is given and treats the records in order. A record with
  prefix 0 changes nothing. For prefix 1, 2 or 3 the key bytes after the prefix are the address
  and the value becomes the nonce (big-endian), the balance (big-endian) or the code (the bytes
  as they are) of its Address State. For prefix 4 the twenty bytes after the prefix are the
  address, the bytes from index 21 on are the slot key, and the big-endian value is stored under
  the big-endian slot key in the storage of its Address State. The Address State of an address
  that has no entry yet is a fresh one for the parsed address, with nonce 0, balance 0, no code
  and empty storage; otherwise it is the entry the map holds, which is updated at its place. The
  map is keyed by the lowercase hexadecimal form of the address bytes, and \<open>getStorage\<close>
  returns \<open>Ok\<close> of the map that the records of the state scan produce from the empty map.
\<close>

theorem getStorage_demultiplex:
  "getStorage_loop env result [] = Inr result \<and>
   (\<forall>rest. key r = 0 # rest \<longrightarrow>
      getStorage_loop env result (r # rs) = getStorage_loop env result rs) \<and>
   (\<forall>a state. key r = 1 # a \<and> scan_entry env result a = Some state \<longrightarrow>
      getStorage_loop env result (r # rs) =
        getStorage_loop env
          (AList.update (toString_hex a) (state\<lparr>nonce := toBigIntBE (val r)\<rparr>) result) rs) \<and>
   (\<forall>a state. key r = 2 # a \<and> scan_entry env result a = Some state \<longrightarrow>
      getStorage_loop env result (r # rs) =
        getStorage_loop env
          (AList.update (toString_hex a) (state\<lparr>balance := toBigIntBE (val r)\<rparr>) result) rs) \<and>
   (\<forall>a state. key r = 3 # a \<and> scan_entry env result a = Some state \<longrightarrow>
      getStorage_loop env result (r # rs) =
        getStorage_loop env
          (AList.update (toString_hex a) (state\<lparr>code := Some (val r)\<rparr>) result) rs) \<and>
   (\<forall>k state. key r = 4 # k \<and> scan_entry env result (take 20 k) = Some state \<longrightarrow>
      getStorage_loop env result (r # rs) =
        getStorage_loop env
          (AList.update (toString_hex (take 20 k))
             (state\<lparr>storage := AList.update (toBigIntBE (drop 20 k)) (toBigIntBE (val r))
                                   (storage state)\<rparr>) result) rs) \<and>
   (\<forall>a x. map_of result (toString_hex a) = None \<and> Address_parse env (toString_hex a) = Inr x \<longrightarrow>
      scan_entry env result a =
        Some \<lparr>address = x, nonce = 0, balance = 0, code = None, storage = []\<rparr>) \<and>
   (\<forall>a state. map_of result (toString_hex a) = Some state \<longrightarrow>
      scan_entry env result a = Some state) \<and>
   (\<forall>a. set (toString_hex a) \<subseteq> set ''0123456789abcdef'') \<and>
   (\<forall>records m. viewState env [] ''final'' = Inr records \<and> getStorage_loop env [] records = Inr m \<longrightarrow>
      fst (getStorage env eng) = Inr (Ok m))"
proof -
  have c0: "getStorage_loop env result (r # rs) = getStorage_loop env result rs"
    if "key r = 0 # rest" for rest
    by (simp add: getStorage_record_Config [OF that])
  have c1: "getStorage_loop env result (r # rs) =
        getStorage_loop env
          (AList.update (toString_hex a) (state\<lparr>nonce := toBigIntBE (val r)\<rparr>) result) rs"
    if "key r = 1 # a \<and> scan_entry env result a = Some state" for a state
    using that getStorage_record_entry [of r 1 a a env result state] by simp
  have c2: "getStorage_loop env result (r # rs) =
        getStorage_loop env
          (AList.update (toString_hex a) (state\<lparr>balance := toBigIntBE (val r)\<rparr>) result) rs"
    if "key r = 2 # a \<and> scan_entry env result a = Some state" for a state
    using that getStorage_record_entry [of r 2 a a env result state] by simp
  have c3: "getStorage_loop env result (r # rs) =
        getStorage_loop env
          (AList.update (toString_hex a) (state\<lparr>code := Some (val r)\<rparr>) result) rs"
    if "key r = 3 # a \<and> scan_entry env result a = Some state" for a state
    using that getStorage_record_entry [of r 3 a a env result state] by simp
  have c4: "getStorage_loop env result (r # rs) =
        getStorage_loop env
          (AList.update (toString_hex (take 20 k))
             (state\<lparr>storage := AList.update (toBigIntBE (drop 20 k)) (toBigIntBE (val r))
                                   (storage state)\<rparr>) result) rs"
    if "key r = 4 # k \<and> scan_entry env result (take 20 k) = Some state" for k state
    using that getStorage_record_entry [of r 4 k "take 20 k" env result state] by simp
  have e1: "scan_entry env result a =
        Some \<lparr>address = x, nonce = 0, balance = 0, code = None, storage = []\<rparr>"
    if "map_of result (toString_hex a) = None \<and> Address_parse env (toString_hex a) = Inr x" for a x
    using that by (simp add: scan_entry_def)
  have e2: "scan_entry env result a = Some state"
    if "map_of result (toString_hex a) = Some state" for a state
    using that by (simp add: scan_entry_def)
  have g: "fst (getStorage env eng) = Inr (Ok m)"
    if "viewState env [] ''final'' = Inr records \<and> getStorage_loop env [] records = Inr m" for records m
    using that by (simp add: getStorage_def Let_def)
  have n: "getStorage_loop env result [] = Inr result"
    by simp
  have h: "\<forall>a. set (toString_hex a) \<subseteq> set ''0123456789abcdef''"
    using toString_hex_lower by blast
  show ?thesis
    by (intro conjI allI impI) (rule n c0 c1 c2 c3 c4 e1 e2 g h [rule_format], assumption?)+
qed

lemma hex_addrA: "toString_hex addrA = ''0102030405060708090a0b0c0d0e0f10111213ab''"
  by (simp add: toString_hex_def addrA_def hex_digit_def)

lemma toBigIntBE_slot1: "toBigIntBE slot1 = 1"
  by (simp add: toBigIntBE_def slot1_def)


lemma length_addrA: "length addrA = 20"
  by (simp add: addrA_def)

theorem getStorage_demultiplex_witness:
  "getStorage_loop stub_env []
     [\<lparr>key = 1 # addrA, val = [5]\<rparr>, \<lparr>key = 2 # addrA, val = [100]\<rparr>,
      \<lparr>key = 4 # addrA @ slot1, val = [7]\<rparr>] =
   Inr [(''0102030405060708090a0b0c0d0e0f10111213ab'',
         \<lparr>address = ''0102030405060708090a0b0c0d0e0f10111213ab'', nonce = 5, balance = 100,
          code = None, storage = [(1, 7)]\<rparr>)]"
proof -
  let ?h = "''0102030405060708090a0b0c0d0e0f10111213ab''"
  let ?r1 = "\<lparr>key = 1 # addrA, val = [5]\<rparr>"
  let ?r2 = "\<lparr>key = 2 # addrA, val = [100]\<rparr>"
  let ?r3 = "\<lparr>key = 4 # addrA @ slot1, val = [7]\<rparr>"
  let ?s0 = "\<lparr>address = ?h, nonce = 0, balance = 0, code = None, storage = []\<rparr>"
  have v: "toBigIntBE [5] = 5" "toBigIntBE [100] = 100" "toBigIntBE [7] = 7"
    by (simp_all add: toBigIntBE_def)
  have e0: "scan_entry stub_env [] addrA = Some ?s0"
    by (simp add: scan_entry_def hex_addrA stub_env_simps)
  have e1: "scan_entry stub_env [(?h, st)] addrA = Some st" for st
    by (simp add: scan_entry_def hex_addrA)
  have s1: "getStorage_loop stub_env [] [?r1, ?r2, ?r3] =
            getStorage_loop stub_env [(?h, ?s0\<lparr>nonce := 5\<rparr>)] [?r2, ?r3]"
    using getStorage_demultiplex [where eng = stub_engine and env = stub_env and result = "[]" and r = ?r1 and rs = "[?r2, ?r3]"]
    by (simp add: e0 v hex_addrA)
  have s2: "getStorage_loop stub_env [(?h, ?s0\<lparr>nonce := 5\<rparr>)] [?r2, ?r3] =
            getStorage_loop stub_env [(?h, ?s0\<lparr>nonce := 5, balance := 100\<rparr>)] [?r3]"
    using getStorage_demultiplex [where eng = stub_engine and env = stub_env and result = "[(?h, ?s0\<lparr>nonce := 5\<rparr>)]"
        and r = ?r2 and rs = "[?r3]"]
    by (simp add: e1 v hex_addrA)
  have s3: "getStorage_loop stub_env [(?h, ?s0\<lparr>nonce := 5, balance := 100\<rparr>)] [?r3] =
            getStorage_loop stub_env [(?h, ?s0\<lparr>nonce := 5, balance := 100, storage := [(1, 7)]\<rparr>)] []"
    using getStorage_demultiplex [where eng = stub_engine and env = stub_env
        and result = "[(?h, ?s0\<lparr>nonce := 5, balance := 100\<rparr>)]" and r = ?r3 and rs = "[]"]
    by (simp add: e1 v hex_addrA length_addrA toBigIntBE_slot1)
  have "getStorage_loop stub_env [] [?r1, ?r2, ?r3] =
          Inr [(?h, ?s0\<lparr>nonce := 5, balance := 100, storage := [(1, 7)]\<rparr>)]"
    by (simp only: s1 s2 s3 getStorage_loop.simps(1))
  then show ?thesis
    by simp
qed

end
